theory Spec2Isabelle
  imports Main "HOL-Library.Sublist"
begin

section \<open>Python strings\<close>

text \<open>
  The program is Python; its strings are sequences of Unicode code points. Every string
  literal of \<^verbatim>\<open>book_search_app.py\<close> that the matching logic reads consists of code points
  below 256, so a string is modelled as a \<^typ>\<open>string\<close> whose characters are read as the code
  points U+0000 to U+00FF (CPython's one-byte string kind). On that range \<^verbatim>\<open>str.lower\<close>
  maps each character to one character of the same range, and the characters removed by
  \<^verbatim>\<open>str.strip()\<close> are those for which \<^verbatim>\<open>str.isspace\<close> holds.
\<close>

definition isspace :: "char \<Rightarrow> bool" where
  "isspace c =
     (let n = (of_char c :: nat)
      in (9 \<le> n \<and> n \<le> 13) \<or> (28 \<le> n \<and> n \<le> 32) \<or> n = 133 \<or> n = 160)"

definition strip :: "string \<Rightarrow> string" where
  "strip s = rev (dropWhile isspace (rev (dropWhile isspace s)))"

text \<open>
  The characters that \<^verbatim>\<open>str.lower\<close> changes: A to Z, and U+00C0 to U+00DE without the
  multiplication sign U+00D7. Each moves up by 32.
\<close>

definition is_upper :: "char \<Rightarrow> bool" where
  "is_upper c =
     (let n = (of_char c :: nat)
      in (65 \<le> n \<and> n \<le> 90) \<or> (192 \<le> n \<and> n \<le> 214) \<or> (216 \<le> n \<and> n \<le> 222))"

definition lower_char :: "char \<Rightarrow> char" where
  "lower_char c = (if is_upper c then char_of (of_char c + 32 :: nat) else c)"

definition lower :: "string \<Rightarrow> string" where
  "lower s = map lower_char s"

text \<open>
  Python's \<^verbatim>\<open>a in b\<close> on strings holds when \<^verbatim>\<open>a\<close> occurs in \<^verbatim>\<open>b\<close> as a contiguous
  block; that is \<^const>\<open>sublist\<close>, which is executable.
\<close>

definition str_in :: "string \<Rightarrow> string \<Rightarrow> bool" where
  "str_in a b = sublist a b"




section \<open>The book lists\<close>

text \<open>
  A row of the three-column lists of \<^verbatim>\<open>search_books\<close> and \<^verbatim>\<open>show_all_books\<close> is
  \<^verbatim>\<open>[title, author, genre]\<close>; a row of the list of \<^verbatim>\<open>fetch_recommendations\<close> has a fourth
  entry, the short description. \<^verbatim>\<open>book[0]\<close> is \<open>title\<close>, \<^verbatim>\<open>book[2]\<close> is \<open>genre\<close>, and
  \<^verbatim>\<open>book[:3]\<close> is \<open>book.truncate\<close>.
\<close>

record book =
  title :: string
  author :: string
  genre :: string

record book_entry = book +
  description :: string

definition mk_book :: "string \<Rightarrow> string \<Rightarrow> string \<Rightarrow> book" where
  "mk_book t a g = \<lparr>title = t, author = a, genre = g\<rparr>"

definition mk_entry :: "string \<Rightarrow> string \<Rightarrow> string \<Rightarrow> string \<Rightarrow> book_entry" where
  "mk_entry t a g d = \<lparr>title = t, author = a, genre = g, description = d\<rparr>"

text \<open>The author of Jane Eyre ends in U+00EB.\<close>

definition charlotte_bronte :: string where
  "charlotte_bronte = ''Charlotte Bront'' @ [CHR 0xEB]"

text \<open>\<^verbatim>\<open>all_books\<close> of \<^verbatim>\<open>search_books\<close>.\<close>

definition search_all_books :: "book list" where
  "search_all_books =
    [mk_book ''The Great Gatsby'' ''F. Scott Fitzgerald'' ''Classic Literature'',
     mk_book ''1984'' ''George Orwell'' ''Dystopian Fiction'',
     mk_book ''Pride and Prejudice'' ''Jane Austen'' ''Romance'',
     mk_book ''The Hobbit'' ''J.R.R. Tolkien'' ''Fantasy'',
     mk_book ''Dune'' ''Frank Herbert'' ''Science Fiction'',
     mk_book ''To Kill a Mockingbird'' ''Harper Lee'' ''Classic Literature'',
     mk_book ''The Catcher in the Rye'' ''J.D. Salinger'' ''Classic Literature'',
     mk_book ''The Lord of the Rings'' ''J.R.R. Tolkien'' ''Fantasy'',
     mk_book ''Brave New World'' ''Aldous Huxley'' ''Dystopian Fiction'',
     mk_book ''Jane Eyre'' charlotte_bronte ''Gothic Fiction'',
     mk_book ''The Chronicles of Narnia'' ''C.S. Lewis'' ''Fantasy'',
     mk_book ''Foundation'' ''Isaac Asimov'' ''Science Fiction'',
     mk_book ''Fahrenheit 451'' ''Ray Bradbury'' ''Dystopian Fiction'',
     mk_book ''Little Women'' ''Louisa May Alcott'' ''Classic Literature'',
     mk_book ''The Handmaid's Tale'' ''Margaret Atwood'' ''Dystopian Fiction'']"

text \<open>\<^verbatim>\<open>all_books\<close> of \<^verbatim>\<open>show_all_books\<close>.\<close>

definition show_all_books_all_books :: "book list" where
  "show_all_books_all_books =
    [mk_book ''The Great Gatsby'' ''F. Scott Fitzgerald'' ''Classic Literature'',
     mk_book ''1984'' ''George Orwell'' ''Dystopian Fiction'',
     mk_book ''Pride and Prejudice'' ''Jane Austen'' ''Romance'',
     mk_book ''The Hobbit'' ''J.R.R. Tolkien'' ''Fantasy'',
     mk_book ''Dune'' ''Frank Herbert'' ''Science Fiction'',
     mk_book ''To Kill a Mockingbird'' ''Harper Lee'' ''Classic Literature'',
     mk_book ''The Catcher in the Rye'' ''J.D. Salinger'' ''Classic Literature'',
     mk_book ''The Lord of the Rings'' ''J.R.R. Tolkien'' ''Fantasy'',
     mk_book ''Brave New World'' ''Aldous Huxley'' ''Dystopian Fiction'',
     mk_book ''Jane Eyre'' charlotte_bronte ''Gothic Fiction'',
     mk_book ''The Chronicles of Narnia'' ''C.S. Lewis'' ''Fantasy'',
     mk_book ''Foundation'' ''Isaac Asimov'' ''Science Fiction'',
     mk_book ''Fahrenheit 451'' ''Ray Bradbury'' ''Dystopian Fiction'',
     mk_book ''Little Women'' ''Louisa May Alcott'' ''Classic Literature'',
     mk_book ''The Handmaid's Tale'' ''Margaret Atwood'' ''Dystopian Fiction'']"

text \<open>\<^verbatim>\<open>all_books\<close> of \<^verbatim>\<open>fetch_recommendations\<close>.\<close>

definition fetch_all_books :: "book_entry list" where
  "fetch_all_books =
    [mk_entry ''The Great Gatsby'' ''F. Scott Fitzgerald'' ''Classic Literature''
       ''A novel about the decadence of the Jazz Age.'',
     mk_entry ''1984'' ''George Orwell'' ''Dystopian Fiction''
       ''A dark, satirical novel about totalitarian surveillance.'',
     mk_entry ''Pride and Prejudice'' ''Jane Austen'' ''Romance''
       ''A witty exploration of love and marriage in early 19th-century England.'',
     mk_entry ''The Hobbit'' ''J.R.R. Tolkien'' ''Fantasy''
       ''An epic adventure of a hobbit's journey through Middle-earth.'',
     mk_entry ''Dune'' ''Frank Herbert'' ''Science Fiction''
       ''A complex narrative of politics, religion, and ecology on a desert planet.'',
     mk_entry ''To Kill a Mockingbird'' ''Harper Lee'' ''Classic Literature''
       ''A powerful story of racial injustice and moral growth.'',
     mk_entry ''The Catcher in the Rye'' ''J.D. Salinger'' ''Classic Literature''
       ''A novel about teenage alienation and angst.'',
     mk_entry ''The Lord of the Rings'' ''J.R.R. Tolkien'' ''Fantasy''
       ''An epic high-fantasy trilogy about the struggle against evil.'',
     mk_entry ''Brave New World'' ''Aldous Huxley'' ''Dystopian Fiction''
       ''A novel exploring a technologically advanced, but emotionally sterile society.'',
     mk_entry ''Jane Eyre'' charlotte_bronte ''Gothic Fiction''
       ''A novel following the emotions and experiences of its eponymous heroine.'',
     mk_entry ''The Chronicles of Narnia'' ''C.S. Lewis'' ''Fantasy''
       ''A series of seven fantasy novels about adventures in the magical land of Narnia.'',
     mk_entry ''Foundation'' ''Isaac Asimov'' ''Science Fiction''
       ''A science fiction saga about the fall and rebirth of a galactic civilization.'',
     mk_entry ''Fahrenheit 451'' ''Ray Bradbury'' ''Dystopian Fiction''
       ''A novel about a future where books are outlawed and burned.'',
     mk_entry ''Little Women'' ''Louisa May Alcott'' ''Classic Literature''
       ''A novel about the lives of four sisters during the American Civil War.'',
     mk_entry ''The Handmaid's Tale'' ''Margaret Atwood'' ''Dystopian Fiction''
       ''A dystopian novel about women's rights and reproductive freedom.'']"


section \<open>The descriptions of \<^verbatim>\<open>view_book_details\<close>\<close>

definition gatsby_description :: string where
  "gatsby_description =
     ''Set in the summer of 1922 on Long Island, New York, this timeless story follows the mysterious millionaire Jay Gatsby and his obsession with the beautiful Daisy Buchanan. Considered F. Scott Fitzgerald's magnum opus, The Great Gatsby explores themes of decadence, idealism, social upheaval, and excess, creating a portrait of the Jazz Age that has been described as a cautionary tale regarding the American Dream.''"

definition description_1984 :: string where
  "description_1984 =
     ''A dystopian social science fiction novel that follows '' @
     ''Winston Smith, a disillusioned citizen who dreams of rebellion '' @
     ''against the totalitarian government of Oceania. Written in 1949, '' @
     ''Orwell's masterpiece presents a haunting vision of a future '' @
     ''marked by perpetual war, omnipresent surveillance, and the '' @
     ''manipulation of history and language.''"

definition pride_description :: string where
  "pride_description =
     ''A romantic novel following the emotional development of '' @
     ''Elizabeth Bennet, who learns the error of making hasty judgments '' @
     ''and comes to appreciate the difference between superficial goodness '' @
     ''and actual goodness. Set in early 19th-century England, the novel '' @
     ''explores themes of love, marriage, social class, and character.''"

definition hobbit_description :: string where
  "hobbit_description =
     ''A fantasy novel that follows the quest of home-loving hobbit '' @
     ''Bilbo Baggins to win a share of the treasure guarded by Smaug '' @
     ''the dragon. His journey takes him from light-hearted beginnings '' @
     ''in the Shire to more sinister experiences. A precursor to The '' @
     ''Lord of the Rings, this beloved classic has enchanted readers '' @
     ''for generations.''"

definition dune_description :: string where
  "dune_description =
     ''Set in the distant future amidst a feudal interstellar society, '' @
     ''Dune tells the story of young Paul Atreides, whose family accepts '' @
     ''stewardship of the planet Arrakis. The only source of the most '' @
     ''valuable substance in the universe, 'the spice', Arrakis is also '' @
     ''one of the most dangerous planets. A stunning blend of adventure '' @
     ''and mysticism, environmentalism and politics.''"

text \<open>The dictionary literal, in the order it is written; its keys are distinct.\<close>

definition descriptions_items :: "(string \<times> string) list" where
  "descriptions_items =
    [(''The Great Gatsby'', gatsby_description),
     (''1984'', description_1984),
     (''Pride and Prejudice'', pride_description),
     (''The Hobbit'', hobbit_description),
     (''Dune'', dune_description)]"

definition descriptions :: "string \<rightharpoonup> string" where
  "descriptions = map_of descriptions_items"

definition no_description :: string where
  "no_description = ''No detailed description available for this book.''"

text \<open>
  \<^verbatim>\<open>descriptions.get(title, "No detailed description available for this book.")\<close>, the
  text that \<^verbatim>\<open>view_book_details\<close> puts into the description field for the title of the
  selected row.
\<close>

definition describe :: "string \<Rightarrow> string" where
  "describe t = (case descriptions t of Some d \<Rightarrow> d | None \<Rightarrow> no_description)"


section \<open>Showing, searching and recommending\<close>

text \<open>
  The three methods return nothing and write rows into a table. Each is modelled by the list
  of books whose rows it writes, in the order of the rows. (When \<^verbatim>\<open>search_books\<close> finds no
  book it also writes one row holding the text "No matching books found"; that row is no
  book and is not part of the list.)
\<close>

definition show_all_books :: "book list" where
  "show_all_books = show_all_books_all_books"

text \<open>The condition of the \<^verbatim>\<open>if\<close> in the loop of \<^verbatim>\<open>search_books\<close>.\<close>

definition book_matches :: "string \<Rightarrow> book \<Rightarrow> bool" where
  "book_matches search_query b =
     (str_in search_query (lower (title b)) \<or>
      str_in search_query (lower (author b)) \<or>
      str_in search_query (lower (genre b)))"

text \<open>The loop that appends to \<^verbatim>\<open>matching_books\<close>.\<close>

fun collect_matching :: "string \<Rightarrow> book list \<Rightarrow> book list \<Rightarrow> book list" where
  "collect_matching search_query [] matching_books = matching_books"
| "collect_matching search_query (b # rest) matching_books =
     collect_matching search_query rest
       (if book_matches search_query b then matching_books @ [b] else matching_books)"

definition search_books :: "string \<Rightarrow> book list" where
  "search_books text =
     (let search_query = strip (lower text)
      in if search_query = [] then show_all_books
         else collect_matching search_query search_all_books [])"

text \<open>\<^verbatim>\<open>show_default_recommendations\<close> empties the table and adds nothing.\<close>

definition show_default_recommendations :: "book_entry list" where
  "show_default_recommendations = []"

definition genre_recommendations :: "string \<Rightarrow> string \<Rightarrow> book_entry list" where
  "genre_recommendations current_title current_genre =
     [b \<leftarrow> fetch_all_books. genre b = current_genre \<and> title b \<noteq> current_title]"

definition fetch_recommendations :: "string \<Rightarrow> string \<Rightarrow> book_entry list" where
  "fetch_recommendations current_title current_genre =
     (let recs = genre_recommendations current_title current_genre
      in if recs = [] then show_default_recommendations else take 5 recs)"


section \<open>Evaluation and helper lemmas\<close>

lemmas str_eval = lower_def lower_char_def is_upper_def strip_def isspace_def str_in_def
  char_of_def bit_Suc_0_iff sublist_Cons_right

lemmas book_lists = show_all_books_def show_all_books_all_books_def search_all_books_def
  fetch_all_books_def mk_book_def mk_entry_def charlotte_bronte_def

lemma collect_matching_filter:
  "collect_matching q bs acc = acc @ filter (book_matches q) bs"
  by (induction bs arbitrary: acc) simp_all

lemma of_char_lower_char:
  "of_char (lower_char c) = (if is_upper c then of_char c + 32 else (of_char c :: nat))"
  by (auto simp: lower_char_def is_upper_def Let_def)

lemma isspace_lower_char: "isspace (lower_char c) = isspace c"
  unfolding isspace_def of_char_lower_char by (auto simp: is_upper_def Let_def)


lemma lower_dropWhile: "lower (dropWhile isspace s) = dropWhile isspace (lower s)"
  by (simp add: lower_def dropWhile_map comp_def isspace_lower_char)

text \<open>Lower-casing and trimming commute, so the order the code applies them in is immaterial.\<close>

lemma lower_strip: "lower (strip s) = strip (lower s)"
proof -
  have "lower (rev xs) = rev (lower xs)" for xs
    by (simp add: lower_def rev_map)
  then show ?thesis
    by (simp add: strip_def lower_dropWhile)
qed

lemma lower_eq_Nil: "lower s = [] \<longleftrightarrow> s = []"
  by (simp add: lower_def)

lemma search_all_books_eq: "search_all_books = show_all_books"
  by (simp add: search_all_books_def show_all_books_def show_all_books_all_books_def)

lemma search_books_filter:
  "search_books q =
     (if strip q = [] then show_all_books
      else filter (book_matches (lower (strip q))) show_all_books)"
  by (simp add: search_books_def Let_def collect_matching_filter search_all_books_eq
      lower_strip [symmetric] lower_eq_Nil)








lemma distinct_show_all_books: "distinct show_all_books"
  by (simp add: book_lists)

lemma fetch_recommendations_take:
  "fetch_recommendations t g = take 5 [b \<leftarrow> fetch_all_books. genre b = g \<and> title b \<noteq> t]"
  by (simp add: fetch_recommendations_def genre_recommendations_def
      show_default_recommendations_def Let_def)


section \<open>Searching\<close>

text \<open>
  C3. A query that is empty, or that trimming leaves empty, makes \<^verbatim>\<open>search_books\<close> show
  exactly the list of \<^verbatim>\<open>show_all_books\<close>: every book, in the order of the list, none
  filtered out. The empty query is one such query.
\<close>

theorem search_books_blank:
  assumes "strip q = []"
  shows "search_books q = show_all_books \<and> search_books [] = show_all_books
         \<and> length show_all_books = 15"
  using assms by (simp add: search_books_filter strip_def book_lists)

theorem search_books_blank_witness:
  "strip [CHR '' '', CHR 0x09, CHR 0xA0, CHR 0x0A] = []
   \<and> search_books [CHR '' '', CHR 0x09, CHR 0xA0, CHR 0x0A] = show_all_books"
proof -
  have blank: "strip [CHR '' '', CHR 0x09, CHR 0xA0, CHR 0x0A] = []"
    by (simp add: strip_def isspace_def)
  from search_books_blank [OF blank] blank show ?thesis
    by simp
qed

text \<open>
  C5. Whatever the query, the books shown by \<^verbatim>\<open>search_books\<close> form a subsequence of the
  list of \<^verbatim>\<open>show_all_books\<close>: each is a book of that list, they come in the order of
  that list, and none comes twice.
\<close>

theorem search_books_subseq:
  "subseq (search_books q) show_all_books
   \<and> distinct (search_books q)
   \<and> set (search_books q) \<subseteq> set show_all_books"
  by (simp add: search_books_filter distinct_show_all_books)

text \<open>
  C1. For a query that trimming does not leave empty, a book is shown by \<^verbatim>\<open>search_books\<close>
  exactly when it is a book of the list and the lower-cased, trimmed query occurs as a
  contiguous block in its lower-cased title, or in its lower-cased author, or in its
  lower-cased genre.
\<close>

theorem search_books_match_iff:
  assumes "strip q \<noteq> []"
  shows "r \<in> set (search_books q) \<longleftrightarrow>
         r \<in> set show_all_books \<and>
         ((\<exists>u v. lower (title r) = u @ lower (strip q) @ v) \<or>
          (\<exists>u v. lower (author r) = u @ lower (strip q) @ v) \<or>
          (\<exists>u v. lower (genre r) = u @ lower (strip q) @ v))"
  using assms
  by (simp add: search_books_filter book_matches_def str_in_def sublist_def)

theorem search_books_match_iff_witness:
  "strip '' Tolkien '' \<noteq> []
   \<and> mk_book ''The Hobbit'' ''J.R.R. Tolkien'' ''Fantasy'' \<in> set (search_books '' Tolkien '')
   \<and> mk_book ''Dune'' ''Frank Herbert'' ''Science Fiction'' \<notin> set (search_books '' Tolkien '')"
proof -
  have q: "strip '' Tolkien '' = ''Tolkien''"
    by (simp add: strip_def isspace_def)
  have ne: "strip '' Tolkien '' \<noteq> []"
    by (simp add: q)
  have hobbit: "mk_book ''The Hobbit'' ''J.R.R. Tolkien'' ''Fantasy'' \<in> set show_all_books"
    and dune: "mk_book ''Dune'' ''Frank Herbert'' ''Science Fiction'' \<in> set show_all_books"
    by (simp_all add: book_lists)
  have yes: "sublist (lower ''Tolkien'') (lower ''J.R.R. Tolkien'')"
    by (simp add: str_eval)
  have no: "\<not> sublist (lower ''Tolkien'') (lower ''Dune'')"
    "\<not> sublist (lower ''Tolkien'') (lower ''Frank Herbert'')"
    "\<not> sublist (lower ''Tolkien'') (lower ''Science Fiction'')"
    by (simp_all add: str_eval)
  from search_books_match_iff [OF ne, of "mk_book ''The Hobbit'' ''J.R.R. Tolkien'' ''Fantasy''"]
    hobbit yes
  have 1: "mk_book ''The Hobbit'' ''J.R.R. Tolkien'' ''Fantasy'' \<in> set (search_books '' Tolkien '')"
    by (simp add: q mk_book_def sublist_def [symmetric])
  from search_books_match_iff [OF ne, of "mk_book ''Dune'' ''Frank Herbert'' ''Science Fiction''"]
    dune no
  have 2: "mk_book ''Dune'' ''Frank Herbert'' ''Science Fiction'' \<notin> set (search_books '' Tolkien '')"
    by (simp add: q mk_book_def sublist_def [symmetric])
  from ne 1 2 show ?thesis
    by blast
qed




section \<open>Recommending\<close>

text \<open>
  C2. Every book recommended for a reference title and a reference genre has exactly that
  genre and a title other than the reference title; at most five books are recommended;
  and they are the first books of the list, in its order, that have the genre and another
  title.
\<close>

theorem fetch_recommendations_sound:
  "(\<forall>r \<in> set (fetch_recommendations t g). genre r = g \<and> title r \<noteq> t)
   \<and> length (fetch_recommendations t g) \<le> 5
   \<and> fetch_recommendations t g
       = take 5 [b \<leftarrow> fetch_all_books. genre b = g \<and> title b \<noteq> t]"
proof -
  have "set (fetch_recommendations t g)
          \<subseteq> set [b \<leftarrow> fetch_all_books. genre b = g \<and> title b \<noteq> t]"
    unfolding fetch_recommendations_take by (rule set_take_subset)
  then have "\<forall>r \<in> set (fetch_recommendations t g). genre r = g \<and> title r \<noteq> t"
    by auto
  moreover have "length (fetch_recommendations t g) \<le> 5"
    by (simp add: fetch_recommendations_take)
  ultimately show ?thesis
    using fetch_recommendations_take by blast
qed

theorem fetch_recommendations_sound_witness:
  "map title (fetch_recommendations ''1984'' ''Dystopian Fiction'')
     = [''Brave New World'', ''Fahrenheit 451'', ''The Handmaid's Tale'']
   \<and> map genre (fetch_recommendations ''1984'' ''Dystopian Fiction'')
     = [''Dystopian Fiction'', ''Dystopian Fiction'', ''Dystopian Fiction'']
   \<and> length (fetch_recommendations ''1984'' ''Dystopian Fiction'') \<le> 5"
proof -
  have titles: "map title (fetch_recommendations ''1984'' ''Dystopian Fiction'')
       = [''Brave New World'', ''Fahrenheit 451'', ''The Handmaid's Tale'']"
    by (simp add: fetch_recommendations_take book_lists)
  have genres: "map genre (fetch_recommendations ''1984'' ''Dystopian Fiction'')
       = [''Dystopian Fiction'', ''Dystopian Fiction'', ''Dystopian Fiction'']"
    by (simp add: fetch_recommendations_take book_lists)
  note fetch_recommendations_sound [of "''1984''" "''Dystopian Fiction''"]
  then have "length (fetch_recommendations ''1984'' ''Dystopian Fiction'') \<le> 5"
    by (elim conjE)
  with titles genres show ?thesis
    by (intro conjI)
qed

text \<open>
  C7. When no book of the list has the reference genre, apart from books with the reference
  title, nothing is recommended: the default recommendations that take over are the empty
  list.
\<close>

theorem fetch_recommendations_none:
  assumes "\<forall>b \<in> set fetch_all_books. genre b = g \<longrightarrow> title b = t"
  shows "fetch_recommendations t g = [] \<and> show_default_recommendations = []"
proof -
  from assms have "[b \<leftarrow> fetch_all_books. genre b = g \<and> title b \<noteq> t] = []"
    by (auto simp: filter_empty_conv)
  then show ?thesis
    by (simp add: fetch_recommendations_take show_default_recommendations_def)
qed

theorem fetch_recommendations_none_witness:
  "map title [b \<leftarrow> fetch_all_books. genre b = ''Romance''] = [''Pride and Prejudice'']
   \<and> fetch_recommendations ''Pride and Prejudice'' ''Romance'' = []"
proof -
  have romance: "map title [b \<leftarrow> fetch_all_books. genre b = ''Romance'']
      = [''Pride and Prejudice'']"
    by (simp add: book_lists)
  have only: "\<forall>b \<in> set fetch_all_books.
      genre b = ''Romance'' \<longrightarrow> title b = ''Pride and Prejudice''"
  proof (intro ballI impI)
    fix b assume "b \<in> set fetch_all_books" and "genre b = ''Romance''"
    then have "title b \<in> set (map title [b \<leftarrow> fetch_all_books. genre b = ''Romance''])"
      by simp
    then show "title b = ''Pride and Prejudice''"
      by (simp only: romance) simp
  qed
  from fetch_recommendations_none [OF only] romance show ?thesis
    by simp
qed

text \<open>
  C8. For the reference title Dune and the reference genre Science Fiction, exactly one
  book is recommended, Foundation.
\<close>

theorem fetch_recommendations_dune:
  "fetch_recommendations ''Dune'' ''Science Fiction''
     = [mk_entry ''Foundation'' ''Isaac Asimov'' ''Science Fiction''
          ''A science fiction saga about the fall and rebirth of a galactic civilization.'']"
  by (simp add: fetch_recommendations_take book_lists)


section \<open>The three lists\<close>

text \<open>
  C9. The list of \<^verbatim>\<open>search_books\<close>, the list of \<^verbatim>\<open>show_all_books\<close> and the list of
  \<^verbatim>\<open>fetch_recommendations\<close> hold the same fifteen books, with the same title, author and
  genre, in the same order; the third list has a description in each row besides.
\<close>

theorem all_books_agree:
  "search_all_books = show_all_books_all_books
   \<and> map book.truncate fetch_all_books = search_all_books
   \<and> length search_all_books = 15
   \<and> length show_all_books_all_books = 15
   \<and> length fetch_all_books = 15"
  by (simp add: book_lists book.truncate_def)



section \<open>Descriptions\<close>

lemma describe_known: "(t, d) \<in> set descriptions_items \<Longrightarrow> describe t = d"
proof -
  assume "(t, d) \<in> set descriptions_items"
  moreover have "distinct (map fst descriptions_items)"
    by (simp add: descriptions_items_def)
  ultimately have "descriptions t = Some d"
    unfolding descriptions_def by (simp add: map_of_is_SomeI)
  then show ?thesis
    by (simp add: describe_def)
qed

lemma describe_unknown: "t \<notin> fst ` set descriptions_items \<Longrightarrow> describe t = no_description"
  by (simp add: describe_def descriptions_def map_of_eq_None_iff [THEN iffD2])

lemma described_titles:
  "fst ` set descriptions_items
     = {''The Great Gatsby'', ''1984'', ''Pride and Prejudice'', ''The Hobbit'', ''Dune''}"
  by (simp add: descriptions_items_def)

text \<open>
  C4. For a title that is, character for character, a key of the dictionary of descriptions,
  the description shown is the one stored under that key; for every other title it is the
  fixed text "No detailed description available for this book.". So 1984 gets its stored
  description and Unknown Title gets the fixed text. The lookup has a value for every
  title: it is a total function and has no failing case.
\<close>

theorem describe_exact:
  "((t, d) \<in> set descriptions_items \<longrightarrow> describe t = d)
   \<and> (t \<notin> fst ` set descriptions_items \<longrightarrow> describe t = no_description)
   \<and> describe ''1984'' = description_1984
   \<and> describe ''Unknown Title'' = no_description
   \<and> no_description = ''No detailed description available for this book.''"
proof -
  have "describe ''1984'' = description_1984"
    by (rule describe_known) (simp add: descriptions_items_def)
  moreover have "describe ''Unknown Title'' = no_description"
    by (rule describe_unknown) (simp add: described_titles)
  ultimately show ?thesis
    by (simp add: describe_known describe_unknown no_description_def)
qed

theorem describe_exact_witness:
  "(''Dune'', dune_description) \<in> set descriptions_items
   \<and> describe ''Dune'' = dune_description
   \<and> ''dune'' \<notin> fst ` set descriptions_items
   \<and> describe ''dune'' = no_description
   \<and> ''Dun'' \<notin> fst ` set descriptions_items
   \<and> describe ''Dun'' = no_description"
proof -
  have key: "(''Dune'', dune_description) \<in> set descriptions_items"
    by (simp add: descriptions_items_def)
  have other: "''dune'' \<notin> fst ` set descriptions_items"
    "''Dun'' \<notin> fst ` set descriptions_items"
    by (simp_all add: described_titles)
  from key other
    describe_exact [of "''Dune''" dune_description]
    describe_exact [of "''dune''" dune_description]
    describe_exact [of "''Dun''" dune_description]
  show ?thesis
    by blast
qed

text \<open>
  C10. The dictionary of descriptions has five keys: The Great Gatsby, 1984, Pride and
  Prejudice, The Hobbit and Dune. The other ten books of the list get the fixed text.
  Foundation is one of them, although its row in the list of \<^verbatim>\<open>fetch_recommendations\<close>
  holds a description.
\<close>

theorem describe_five_titles:
  "fst ` set descriptions_items
     = {''The Great Gatsby'', ''1984'', ''Pride and Prejudice'', ''The Hobbit'', ''Dune''}
   \<and> map title [b \<leftarrow> fetch_all_books. title b \<in> fst ` set descriptions_items]
     = [''The Great Gatsby'', ''1984'', ''Pride and Prejudice'', ''The Hobbit'', ''Dune'']
   \<and> length [b \<leftarrow> fetch_all_books. title b \<notin> fst ` set descriptions_items] = 10
   \<and> (\<forall>b \<in> set fetch_all_books.
        title b \<notin> fst ` set descriptions_items \<longrightarrow> describe (title b) = no_description)
   \<and> describe ''Foundation'' = no_description
   \<and> map description [b \<leftarrow> fetch_all_books. title b = ''Foundation'']
     = [''A science fiction saga about the fall and rebirth of a galactic civilization.'']"
proof -
  have "map title [b \<leftarrow> fetch_all_books. title b \<in> fst ` set descriptions_items]
     = [''The Great Gatsby'', ''1984'', ''Pride and Prejudice'', ''The Hobbit'', ''Dune'']"
    by (simp add: described_titles book_lists)
  moreover have "length [b \<leftarrow> fetch_all_books. title b \<notin> fst ` set descriptions_items] = 10"
    by (simp add: described_titles book_lists)
  moreover have "describe ''Foundation'' = no_description"
    by (rule describe_unknown) (simp add: described_titles)
  moreover have "map description [b \<leftarrow> fetch_all_books. title b = ''Foundation'']
     = [''A science fiction saga about the fall and rebirth of a galactic civilization.'']"
    by (simp add: book_lists)
  ultimately show ?thesis
    using described_titles describe_unknown by blast
qed

theorem describe_five_titles_witness:
  "mk_entry ''Little Women'' ''Louisa May Alcott'' ''Classic Literature''
      ''A novel about the lives of four sisters during the American Civil War.''
     \<in> set fetch_all_books
   \<and> ''Little Women'' \<notin> fst ` set descriptions_items
   \<and> describe ''Little Women'' = no_description"
proof -
  let ?b = "mk_entry ''Little Women'' ''Louisa May Alcott'' ''Classic Literature''
      ''A novel about the lives of four sisters during the American Civil War.''"
  have mem: "?b \<in> set fetch_all_books"
    by (simp add: fetch_all_books_def)
  have t: "title ?b = ''Little Women''"
    by (simp add: mk_entry_def)
  have other: "''Little Women'' \<notin> fst ` set descriptions_items"
    by (simp add: described_titles)
  from describe_five_titles mem t other show ?thesis
    by metis
qed

end
